theory Spec2Isabelle
  imports Complex_Main
begin

section \<open>Python values\<close>

text \<open>
  A Python \<open>str\<close> is a sequence of Unicode code points, so it is modelled as a list of
  code points (natural numbers): \<open>len\<close>, slicing and \<open>strip\<close> of the source count
  code points, as \<open>length\<close>, \<open>take\<close> and \<open>dropWhile\<close> do here. \<open>ustr\<close> turns an
  ASCII literal into such a list.
\<close>

type_synonym pystr = "nat list"

abbreviation ustr :: "string \<Rightarrow> pystr" where
  "ustr s \<equiv> map of_char s"

abbreviation nl :: nat where
  "nl \<equiv> 10"

text \<open>
  The code points that \<open>str.isspace\<close> accepts, which are the ones \<open>str.strip()\<close>
  removes: U+0009..U+000D, U+001C..U+0020, U+0085, U+00A0, U+1680, U+2000..U+200A,
  U+2028, U+2029, U+202F, U+205F, U+3000.
\<close>

definition py_isspace :: "nat \<Rightarrow> bool" where
  "py_isspace c \<longleftrightarrow>
     (9 \<le> c \<and> c \<le> 13) \<or> (28 \<le> c \<and> c \<le> 32) \<or> c = 133 \<or> c = 160 \<or> c = 5760 \<or>
     (8192 \<le> c \<and> c \<le> 8202) \<or> c = 8232 \<or> c = 8233 \<or> c = 8239 \<or> c = 8287 \<or>
     c = 12288"

definition py_lstrip :: "pystr \<Rightarrow> pystr" where
  "py_lstrip s = dropWhile py_isspace s"

definition py_rstrip :: "pystr \<Rightarrow> pystr" where
  "py_rstrip s = rev (dropWhile py_isspace (rev s))"

definition py_strip :: "pystr \<Rightarrow> pystr" where
  "py_strip s = py_rstrip (py_lstrip s)"

text \<open>\<open>sep.join(xs)\<close>.\<close>

fun py_join :: "pystr \<Rightarrow> pystr list \<Rightarrow> pystr" where
  "py_join sep [] = []"
| "py_join sep [x] = x"
| "py_join sep (x # y # ys) = x @ sep @ py_join sep (y # ys)"

text \<open>\<open>sub in s\<close> for two strings.\<close>

fun py_contains :: "pystr \<Rightarrow> pystr \<Rightarrow> bool" where
  "py_contains sub [] = (sub = [])"
| "py_contains sub (c # cs) = (take (length sub) (c # cs) = sub \<or> py_contains sub cs)"

text \<open>
  The values that can reach the program from the chat widget: the history is a list whose
  items should be dictionaries with string keys, but any item may be anything.
\<close>

datatype pyval =
    PyNone
  | PyBool bool
  | PyInt int
  | PyStr pystr
  | PyList "pyval list"
  | PyDict "(pystr \<times> pyval) list"

text \<open>\<open>d.get(key)\<close>: the value, or \<open>None\<close> for a missing key.\<close>

definition dict_get :: "(pystr \<times> pyval) list \<Rightarrow> pystr \<Rightarrow> pyval" where
  "dict_get d key = (case map_of d key of None \<Rightarrow> PyNone | Some v \<Rightarrow> v)"

text \<open>The exceptions of the program; \<open>Inl\<close> of a result is a raised exception.\<close>

datatype error =
    ProviderError
  | AttributeError
  | KeyError
  | TypeError
  | OSError
  | ImportError
  | ExtractionError

text \<open>\<open>m[key]\<close>: raises \<open>KeyError\<close> for a missing key, \<open>TypeError\<close> when \<open>m\<close> is no dictionary.\<close>

definition subscript :: "pyval \<Rightarrow> pystr \<Rightarrow> error + pyval" where
  "subscript m key =
     (case m of
        PyDict d \<Rightarrow> (case map_of d key of None \<Rightarrow> Inl KeyError | Some v \<Rightarrow> Inr v)
      | _ \<Rightarrow> Inl TypeError)"

text \<open>The dictionary display \<open>{"role": role, "content": content}\<close>.\<close>

definition role_content :: "pyval \<Rightarrow> pyval \<Rightarrow> pyval" where
  "role_content role content = PyDict [(ustr ''role'', role), (ustr ''content'', content)]"

section \<open>The world outside the functions\<close>

text \<open>
  A request to the completion endpoint, with the keyword arguments of
  \<open>client.chat.completions.create\<close>.
\<close>

record request =
  model :: pystr
  messages :: "pyval list"
  temperature :: real
  max_tokens :: nat

text \<open>
  The list objects live in a store, so that appending to a list is visible through every
  reference to it and through no other: a reference is an index into \<open>heap\<close>, and a new
  list is allocated at the end. \<open>gw_log\<close> records every request sent to the completion
  endpoint, in order; \<open>index_html\<close> is the content of the generated file, once written.
\<close>

type_synonym ref = nat

record world =
  heap :: "pyval list list"
  gw_log :: "request list"
  index_html :: "pystr option"

text \<open>
  What the program reads from its surroundings: the configuration read at start-up, the
  library functions whose result depends on the platform or on the Unicode tables, the
  file system, the two document parsers and the completion endpoint. The endpoint may
  answer the \<open>n\<close>-th request differently from the ones before; its answer is an
  exception, or the \<open>content\<close> of the first choice, which may be \<open>None\<close>.
\<close>

record env =
  MODEL_NAME :: pystr
  INDEX_HTML_PATH :: pystr
  os_path_splitext :: "pystr \<Rightarrow> pystr \<times> pystr"
  str_lower :: "pystr \<Rightarrow> pystr"
  builtin_str :: "pyval \<Rightarrow> pystr"
  open_read :: "pystr \<Rightarrow> error + pystr"
  docx_paragraphs :: "pystr \<Rightarrow> error + pystr list"
  pdf_page_texts :: "pystr \<Rightarrow> error + pystr option list"
  chat_completions_create :: "nat \<Rightarrow> request \<Rightarrow> error + pystr option"
  open_write :: "pystr \<Rightarrow> pystr \<Rightarrow> error option"

definition new_list :: "world \<Rightarrow> pyval list \<Rightarrow> ref \<times> world" where
  "new_list w xs = (length (heap w), w\<lparr>heap := heap w @ [xs]\<rparr>)"

definition list_append :: "world \<Rightarrow> ref \<Rightarrow> pyval \<Rightarrow> world" where
  "list_append w r x = w\<lparr>heap := (heap w)[r := heap w ! r @ [x]]\<rparr>"

text \<open>\<open>history_messages or []\<close>, read as a sequence of items.\<close>

definition items_or_empty :: "world \<Rightarrow> ref option \<Rightarrow> pyval list" where
  "items_or_empty w history_messages =
     (case history_messages of None \<Rightarrow> [] | Some r \<Rightarrow> heap w ! r)"

definition gateway_call :: "env \<Rightarrow> world \<Rightarrow> request \<Rightarrow> (error + pystr option) \<times> world" where
  "gateway_call env w req =
     (chat_completions_create env (length (gw_log w)) req, w\<lparr>gw_log := gw_log w @ [req]\<rparr>)"

section \<open>Constants\<close>

definition SYSTEM_PROMPT :: pystr where
  "SYSTEM_PROMPT =
     ustr ''\<newline>You are PersonaAI Coach '' @ [8212] @ ustr '' '' @ [34] @
     ustr ''Your Identity. Your Brand.'' @ [34] @
     ustr ''\<newline>You help professionals elevate career identity, personal brand, and website presence.\<newline>'' @
     ustr ''\<newline>Rules:\<newline>'' @
     ustr ''- Ask focused, friendly questions about role, achievements, goals.\<newline>'' @
     ustr ''- Use uploaded resume/profile as context but do not repeat it verbatim.\<newline>'' @
     ustr ''- Give actionable suggestions (bullets ok).\<newline>'' @
     ustr ''- Avoid inventing credentials/employers/dates.\<newline>''"

definition WEBSITE_SYSTEM_PROMPT :: pystr where
  "WEBSITE_SYSTEM_PROMPT =
     ustr ''\<newline>You are PersonaAI Website Generator.\<newline>'' @
     ustr ''\<newline>Goal:\<newline>'' @
     ustr ''- Use chat history + optional resume/profile text\<newline>'' @
     ustr ''- Output a COMPLETE single-file professional personal website as HTML with embedded CSS\<newline>'' @
     ustr ''- Clean, modern, responsive, professional\<newline>'' @
     ustr ''\<newline>Sections:\<newline>'' @
     ustr ''- Hero (Name, Title, Tagline)\<newline>'' @
     ustr ''- About\<newline>'' @
     ustr ''- Experience / Projects highlights\<newline>'' @
     ustr ''- Skills\<newline>'' @
     ustr ''- Contact\<newline>'' @
     ustr ''\<newline>Rules:\<newline>'' @
     ustr ''- Return ONLY HTML starting with <!DOCTYPE html> and ending with </html>\<newline>'' @
     ustr ''- No external CSS frameworks\<newline>'' @
     ustr ''- Do NOT invent employers/dates/awards not present in provided content.\<newline>''"

definition CONTEXT_LABEL :: pystr where
  "CONTEXT_LABEL = ustr ''Additional user context from uploaded resume/profile:\<newline>''"

section \<open>Helpers\<close>

text \<open>
  \<open>re.sub(r"\n{3,}", "\n\n", text)\<close>: scanning from the left, a newline that starts a run
  of three or more newlines matches the whole run (the quantifier is greedy) and the run
  is replaced by two newlines; any other character is copied.
\<close>

function sub_newlines :: "pystr \<Rightarrow> pystr" where
  "sub_newlines [] = []"
| "sub_newlines (c # cs) =
     (if c = nl \<and> 3 \<le> length (takeWhile (\<lambda>x. x = nl) (c # cs))
      then nl # nl # sub_newlines (dropWhile (\<lambda>x. x = nl) cs)
      else c # sub_newlines cs)"
  by pat_completeness auto
termination
  by (relation "measure length") (auto simp: length_dropWhile_le less_Suc_eq_le)

definition clean_text :: "pystr option \<Rightarrow> pystr" where
  "clean_text text =
     (let text = py_strip (case text of None \<Rightarrow> [] | Some t \<Rightarrow> t);
          text = sub_newlines text
      in text)"

text \<open>
  The body of the \<open>try\<close> block of \<open>file_to_text\<close>: \<open>Inl\<close> is an exception raised in it,
  \<open>Inr (Some text)\<close> one of its \<open>return\<close> statements, \<open>Inr None\<close> the end of the block with
  no branch taken.
\<close>

definition file_to_text_try :: "env \<Rightarrow> pystr \<Rightarrow> pystr \<Rightarrow> error + pystr option" where
  "file_to_text_try env file_path ext =
     (if ext = ustr ''.txt'' \<or> ext = ustr ''.md'' then
        (case open_read env file_path of
           Inl e \<Rightarrow> Inl e
         | Inr content \<Rightarrow> Inr (Some (clean_text (Some content))))
      else if ext = ustr ''.docx'' then
        (case docx_paragraphs env file_path of
           Inl e \<Rightarrow> Inl e
         | Inr paragraphs \<Rightarrow>
             (let text = py_join [nl] (filter (\<lambda>t. t \<noteq> [] \<and> py_strip t \<noteq> []) paragraphs)
              in Inr (Some (clean_text (Some text)))))
      else if ext = ustr ''.pdf'' then
        (case pdf_page_texts env file_path of
           Inl e \<Rightarrow> Inl e
         | Inr extracted \<Rightarrow>
             (let pages = map (\<lambda>t. case t of None \<Rightarrow> [] | Some s \<Rightarrow> s) extracted
              in Inr (Some (clean_text (Some (py_join [nl] pages))))))
      else Inr None)"

definition file_to_text :: "env \<Rightarrow> pystr option \<Rightarrow> error + pystr" where
  "file_to_text env file_path =
     (case file_path of
        None \<Rightarrow> Inr []
      | Some p \<Rightarrow>
          if p = [] then Inr []
          else
            (let ext = str_lower env (snd (os_path_splitext env p)) in
             case file_to_text_try env p ext of
               Inl e \<Rightarrow> Inr []
             | Inr (Some text) \<Rightarrow> Inr text
             | Inr None \<Rightarrow> Inr []))"

text \<open>
  One round of the loop of \<open>normalize_history\<close>: the dictionary appended to \<open>out\<close>, if
  the item is kept.
\<close>

definition normalize_item :: "pyval \<Rightarrow> pyval option" where
  "normalize_item m =
     (case m of
        PyDict d \<Rightarrow>
          (let role = dict_get d (ustr ''role'');
               content = dict_get d (ustr ''content'')
           in case content of
                PyStr c \<Rightarrow>
                  if (role = PyStr (ustr ''user'') \<or> role = PyStr (ustr ''assistant''))
                     \<and> py_strip c \<noteq> []
                  then Some (role_content role (PyStr (py_strip c)))
                  else None
              | _ \<Rightarrow> None)
      | _ \<Rightarrow> None)"

fun normalize_loop :: "pyval list \<Rightarrow> pyval list \<Rightarrow> pyval list" where
  "normalize_loop [] out = out"
| "normalize_loop (m # ms) out =
     normalize_loop ms (case normalize_item m of None \<Rightarrow> out | Some t \<Rightarrow> out @ [t])"

definition normalize_history :: "world \<Rightarrow> ref option \<Rightarrow> ref \<times> world" where
  "normalize_history w history_messages =
     new_list w (normalize_loop (items_or_empty w history_messages) [])"

text \<open>
  The replacement field \<open>{m['content']}\<close> of an f-string: a \<open>str\<close> is inserted as it is,
  any other value through the built-in \<open>str\<close>.
\<close>

definition format_value :: "env \<Rightarrow> pyval \<Rightarrow> pystr" where
  "format_value env v = (case v of PyStr s \<Rightarrow> s | _ \<Rightarrow> builtin_str env v)"

definition transcript_line :: "env \<Rightarrow> pyval \<Rightarrow> error + pystr" where
  "transcript_line env m =
     (case subscript m (ustr ''role'') of
        Inl e \<Rightarrow> Inl e
      | Inr role \<Rightarrow>
          (case subscript m (ustr ''content'') of
             Inl e \<Rightarrow> Inl e
           | Inr content \<Rightarrow>
               if role = PyStr (ustr ''user'')
               then Inr (ustr ''User: '' @ format_value env content)
               else Inr (ustr ''Assistant: '' @ format_value env content)))"

fun transcript_loop :: "env \<Rightarrow> pyval list \<Rightarrow> pystr list \<Rightarrow> error + pystr list" where
  "transcript_loop env [] lines = Inr lines"
| "transcript_loop env (m # ms) lines =
     (case transcript_line env m of
        Inl e \<Rightarrow> Inl e
      | Inr l \<Rightarrow> transcript_loop env ms (lines @ [l]))"

definition history_to_transcript ::
  "env \<Rightarrow> world \<Rightarrow> ref option \<Rightarrow> (error + pystr) \<times> world" where
  "history_to_transcript env w history_messages =
     (let (normalized, w1) = normalize_history w history_messages in
      case transcript_loop env (heap w1 ! normalized) [] of
        Inl e \<Rightarrow> (Inl e, w1)
      | Inr lines \<Rightarrow> (Inr (py_join [nl] lines), w1))"

section \<open>Calls of the completion endpoint\<close>

text \<open>The list \<open>messages\<close> that \<open>persona_chat\<close> builds.\<close>

definition chat_messages :: "pystr \<Rightarrow> pyval list \<Rightarrow> pystr \<Rightarrow> pyval list" where
  "chat_messages file_text history user_message =
     (let messages = [role_content (PyStr (ustr ''system'')) (PyStr SYSTEM_PROMPT)];
          messages =
            (if file_text \<noteq> []
             then messages @
               [role_content (PyStr (ustr ''system''))
                  (PyStr (CONTEXT_LABEL @ take 6000 file_text))]
             else messages);
          messages = messages @ history;
          messages = messages @ [role_content (PyStr (ustr ''user'')) (PyStr user_message)]
      in messages)"

definition persona_chat ::
  "env \<Rightarrow> world \<Rightarrow> pystr \<Rightarrow> ref option \<Rightarrow> pystr option \<Rightarrow> (error + pystr) \<times> world" where
  "persona_chat env w user_message history_messages uploaded_file_path =
     (let (history, w1) = normalize_history w history_messages in
      case file_to_text env uploaded_file_path of
        Inl e \<Rightarrow> (Inl e, w1)
      | Inr file_text \<Rightarrow>
          (let messages = chat_messages file_text (heap w1 ! history) user_message;
               (completion, w2) =
                 gateway_call env w1
                   \<lparr>model = MODEL_NAME env, messages = messages,
                    temperature = 0.7, max_tokens = 600\<rparr>
           in case completion of
                Inl e \<Rightarrow> (Inl e, w2)
              | Inr None \<Rightarrow> (Inl AttributeError, w2)
              | Inr (Some content) \<Rightarrow> (Inr (py_strip content), w2)))"

text \<open>The list \<open>messages\<close> that \<open>generate_website\<close> builds.\<close>

definition website_messages :: "pystr \<Rightarrow> pystr \<Rightarrow> pyval list" where
  "website_messages convo_text file_text =
     [role_content (PyStr (ustr ''system'')) (PyStr WEBSITE_SYSTEM_PROMPT),
      role_content (PyStr (ustr ''user''))
        (PyStr (ustr ''Chat transcript:\<newline>'' @ convo_text @
                ustr ''\<newline>\<newline>Resume/Profile text:\<newline>'' @ take 8000 file_text))]"

definition generate_website ::
  "env \<Rightarrow> world \<Rightarrow> ref option \<Rightarrow> pystr option \<Rightarrow> (error + pystr) \<times> world" where
  "generate_website env w history_messages uploaded_file_path =
     (let (history, w1) = normalize_history w history_messages;
          (convo, w2) = history_to_transcript env w1 (Some history)
      in case convo of
           Inl e \<Rightarrow> (Inl e, w2)
         | Inr convo_text \<Rightarrow>
             (case file_to_text env uploaded_file_path of
                Inl e \<Rightarrow> (Inl e, w2)
              | Inr file_text \<Rightarrow>
                  (let (completion, w3) =
                         gateway_call env w2
                           \<lparr>model = MODEL_NAME env,
                            messages = website_messages convo_text file_text,
                            temperature = 0.6, max_tokens = 2200\<rparr>
                   in case completion of
                        Inl e \<Rightarrow> (Inl e, w3)
                      | Inr content \<Rightarrow>
                          (let html = py_strip (case content of None \<Rightarrow> [] | Some c \<Rightarrow> c)
                           in case open_write env (INDEX_HTML_PATH env) html of
                                Some e \<Rightarrow> (Inl e, w3)
                              | None \<Rightarrow>
                                  (Inr (INDEX_HTML_PATH env),
                                   w3\<lparr>index_html := Some html\<rparr>)))))"

section \<open>The handler of the submit button\<close>

definition handle_submit ::
  "env \<Rightarrow> world \<Rightarrow> pystr option \<Rightarrow> ref option \<Rightarrow> pystr option
     \<Rightarrow> (error + pystr \<times> ref) \<times> world" where
  "handle_submit env w user_message history_messages uploaded_file_path =
     (let (history, w1) = normalize_history w history_messages in
      case user_message of
        None \<Rightarrow> (Inr ([], history), w1)
      | Some um \<Rightarrow>
          if um = [] \<or> py_strip um = [] then (Inr ([], history), w1)
          else
            (case persona_chat env w1 (py_strip um) (Some history) uploaded_file_path of
               (Inl e, w2) \<Rightarrow> (Inl e, w2)
             | (Inr reply, w2) \<Rightarrow>
                 (let w3 = list_append w2 history
                             (role_content (PyStr (ustr ''user'')) (PyStr (py_strip um)));
                      w4 = list_append w3 history
                             (role_content (PyStr (ustr ''assistant'')) (PyStr reply))
                  in (Inr ([], history), w4))))"

section \<open>What the description says\<close>

text \<open>
  A record of the history is kept when it is a dictionary whose \<open>role\<close> is \<open>user\<close> or
  \<open>assistant\<close> and whose \<open>content\<close> is a string that is not empty once trimmed.
\<close>

definition is_valid_entry :: "pyval \<Rightarrow> bool" where
  "is_valid_entry m =
     (case m of
        PyDict d \<Rightarrow>
          (map_of d (ustr ''role'') = Some (PyStr (ustr ''user'')) \<or>
           map_of d (ustr ''role'') = Some (PyStr (ustr ''assistant''))) \<and>
          (case map_of d (ustr ''content'') of
             Some (PyStr c) \<Rightarrow> py_strip c \<noteq> []
           | _ \<Rightarrow> False)
      | _ \<Rightarrow> False)"

definition turn_role :: "pyval \<Rightarrow> pystr" where
  "turn_role m =
     (case m of
        PyDict d \<Rightarrow> (case map_of d (ustr ''role'') of Some (PyStr r) \<Rightarrow> r | _ \<Rightarrow> [])
      | _ \<Rightarrow> [])"

definition turn_content :: "pyval \<Rightarrow> pystr" where
  "turn_content m =
     (case m of
        PyDict d \<Rightarrow> (case map_of d (ustr ''content'') of Some (PyStr c) \<Rightarrow> c | _ \<Rightarrow> [])
      | _ \<Rightarrow> [])"

text \<open>The turn that stands for a kept record: its role, and its content trimmed.\<close>

definition trimmed_turn :: "pyval \<Rightarrow> pyval" where
  "trimmed_turn m = role_content (PyStr (turn_role m)) (PyStr (py_strip (turn_content m)))"

text \<open>
  The invariant of a turn: exactly the fields \<open>role\<close> and \<open>content\<close>, the role \<open>user\<close> or
  \<open>assistant\<close>, the content a string that is not empty and has no white space around it.
\<close>

definition is_turn :: "pyval \<Rightarrow> bool" where
  "is_turn t \<longleftrightarrow>
     t = role_content (PyStr (turn_role t)) (PyStr (turn_content t)) \<and>
     (turn_role t = ustr ''user'' \<or> turn_role t = ustr ''assistant'') \<and>
     turn_content t \<noteq> [] \<and> py_strip (turn_content t) = turn_content t"

text \<open>The line of the transcript for a turn.\<close>

definition turn_line :: "pyval \<Rightarrow> pystr" where
  "turn_line t =
     (if turn_role t = ustr ''user'' then ustr ''User: '' else ustr ''Assistant: '')
       @ turn_content t"

text \<open>
  A system message of a prompt that carries the label of the uploaded document.
\<close>

definition is_context_message :: "pyval \<Rightarrow> bool" where
  "is_context_message m \<longleftrightarrow>
     dict_get (case m of PyDict d \<Rightarrow> d | _ \<Rightarrow> []) (ustr ''role'') = PyStr (ustr ''system'') \<and>
     py_contains (ustr ''Additional user context from uploaded resume/profile:'') (turn_content m)"

text \<open>The document context of a call: the text that \<open>file_to_text\<close> returns.\<close>

definition document_text :: "env \<Rightarrow> pystr option \<Rightarrow> pystr" where
  "document_text env uploaded_file_path =
     (case file_to_text env uploaded_file_path of Inr text \<Rightarrow> text | Inl e \<Rightarrow> [])"

text \<open>The normalized history of a call, and the request of a chat turn built on it.\<close>

definition normalized :: "world \<Rightarrow> ref option \<Rightarrow> pyval list" where
  "normalized w history_messages = normalize_loop (items_or_empty w history_messages) []"

definition chat_request :: "env \<Rightarrow> world \<Rightarrow> pystr \<Rightarrow> ref option \<Rightarrow> pystr option \<Rightarrow> request" where
  "chat_request env w user_message history_messages uploaded_file_path =
     \<lparr>model = MODEL_NAME env,
      messages = chat_messages (document_text env uploaded_file_path)
                   (normalized w history_messages) user_message,
      temperature = 0.7, max_tokens = 600\<rparr>"

section \<open>A sample environment\<close>

text \<open>
  \<open>posixpath.splitext\<close>: the extension starts at the last dot of the last path component,
  unless only dots come before it in that component.
\<close>

definition after_last :: "nat \<Rightarrow> pystr \<Rightarrow> pystr" where
  "after_last c s = rev (takeWhile (\<lambda>x. x \<noteq> c) (rev s))"

definition posix_splitext :: "pystr \<Rightarrow> pystr \<times> pystr" where
  "posix_splitext p =
     (let base = after_last 47 p;
          tail = after_last 46 base;
          stem = take (length base - length tail - 1) base
      in if 46 \<in> set base \<and> (\<exists>c \<in> set stem. c \<noteq> 46)
         then (take (length p - length tail - 1) p, drop (length p - length tail - 1) p)
         else (p, []))"

definition ascii_lower :: "pystr \<Rightarrow> pystr" where
  "ascii_lower s = map (\<lambda>c. if 65 \<le> c \<and> c \<le> 90 then c + 32 else c) s"

text \<open>
  A machine with one readable file, \<open>resume.txt\<close>, no document parsers installed, and a
  completion endpoint that answers \<open>Hi there\<close> to every request.
\<close>

definition sample_env :: env where
  "sample_env =
     \<lparr>MODEL_NAME = ustr ''gpt-4.1-mini'',
      INDEX_HTML_PATH = ustr ''generated_sites/index.html'',
      os_path_splitext = posix_splitext,
      str_lower = ascii_lower,
      builtin_str = (\<lambda>v. ustr ''None''),
      open_read = (\<lambda>p. if p = ustr ''resume.txt''
                         then Inr (ustr ''Jane Doe\<newline>\<newline>\<newline>\<newline>Engineer\<newline>'')
                         else Inl OSError),
      docx_paragraphs = (\<lambda>p. Inl ImportError),
      pdf_page_texts = (\<lambda>p. Inl ImportError),
      chat_completions_create = (\<lambda>n req. Inr (Some (ustr ''Hi there''))),
      open_write = (\<lambda>p c. None)\<rparr>"

text \<open>The same machine with an endpoint that fails, and with one that answers blanks.\<close>

definition failing_env :: env where
  "failing_env = sample_env\<lparr>chat_completions_create := (\<lambda>n req. Inl ProviderError)\<rparr>"

definition blank_env :: env where
  "blank_env = sample_env\<lparr>chat_completions_create := (\<lambda>n req. Inr (Some (ustr ''   '')))\<rparr>"

text \<open>The same machine where every file read gives 9000 times the letter \<open>x\<close>.\<close>

definition long_env :: env where
  "long_env = sample_env\<lparr>open_read := (\<lambda>p. Inr (replicate 9000 120))\<rparr>"

definition empty_world :: world where
  "empty_world = \<lparr>heap = [], gw_log = [], index_html = None\<rparr>"

text \<open>
  A history as the chat widget may hand it over: an item that is no dictionary, a user
  turn with blanks around its text, a system message, the placeholder of an answer that
  has not arrived yet, and an answer.
\<close>

definition sample_history :: "pyval list" where
  "sample_history =
     [PyNone,
      role_content (PyStr (ustr ''user'')) (PyStr (ustr '' hi '')),
      role_content (PyStr (ustr ''system'')) (PyStr (ustr ''x'')),
      role_content (PyStr (ustr ''assistant'')) (PyStr (ustr ''  '')),
      role_content (PyStr (ustr ''assistant'')) (PyStr (ustr ''Hello''))]"

text \<open>The two turns that are kept of it.\<close>

definition sample_turns :: "pyval list" where
  "sample_turns =
     [role_content (PyStr (ustr ''user'')) (PyStr (ustr ''hi'')),
      role_content (PyStr (ustr ''assistant'')) (PyStr (ustr ''Hello''))]"

definition sample_world :: world where
  "sample_world = \<lparr>heap = [sample_history], gw_log = [], index_html = None\<rparr>"

definition fresh_world :: world where
  "fresh_world = \<lparr>heap = [[]], gw_log = [], index_html = None\<rparr>"

section \<open>Trimming\<close>

lemma py_rstrip_eq_take:
  "py_rstrip u = take (length u - length (takeWhile py_isspace (rev u))) u"
proof -
  have "dropWhile py_isspace (rev u) = drop (length (takeWhile py_isspace (rev u))) (rev u)"
    by (rule dropWhile_eq_drop)
  then show ?thesis
    by (simp add: py_rstrip_def rev_drop)
qed

lemma py_lstrip_hd: "py_lstrip s \<noteq> [] \<Longrightarrow> \<not> py_isspace (hd (py_lstrip s))"
  unfolding py_lstrip_def by (rule hd_dropWhile)

lemma py_rstrip_last: "py_rstrip s \<noteq> [] \<Longrightarrow> \<not> py_isspace (last (py_rstrip s))"
  unfolding py_rstrip_def by (simp add: last_rev hd_dropWhile)

lemma py_rstrip_hd: "py_rstrip u \<noteq> [] \<Longrightarrow> hd (py_rstrip u) = hd u"
  by (subst py_rstrip_eq_take, subst (asm) py_rstrip_eq_take) (simp add: hd_take)

lemma py_lstrip_last: "py_lstrip u \<noteq> [] \<Longrightarrow> last (py_lstrip u) = last u"
  unfolding py_lstrip_def by (metis dropWhile_eq_drop last_drop drop_eq_Nil not_le)

lemma py_lstrip_id: "s = [] \<or> \<not> py_isspace (hd s) \<Longrightarrow> py_lstrip s = s"
  unfolding py_lstrip_def by (simp add: dropWhile_eq_self_iff)

lemma py_rstrip_id: "s = [] \<or> \<not> py_isspace (last s) \<Longrightarrow> py_rstrip s = s"
  unfolding py_rstrip_def by (cases "s = []") (simp_all add: dropWhile_eq_self_iff hd_rev rev_swap)

lemma py_strip_ends:
  "py_strip s \<noteq> [] \<Longrightarrow> \<not> py_isspace (hd (py_strip s)) \<and> \<not> py_isspace (last (py_strip s))"
  unfolding py_strip_def
  by (metis py_rstrip_hd py_rstrip_last py_lstrip_hd py_rstrip_eq_take take_Nil)

lemma py_strip_idem: "py_strip (py_strip s) = py_strip s"
proof (cases "py_strip s = []")
  case True
  have "py_strip [] = []" by (simp add: py_strip_def py_lstrip_def py_rstrip_def)
  with True show ?thesis by simp
next
  case False
  then have "py_lstrip (py_strip s) = py_strip s" "py_rstrip (py_strip s) = py_strip s"
    using py_strip_ends [of s] by (simp_all add: py_lstrip_id py_rstrip_id)
  then show ?thesis by (simp add: py_strip_def [of "py_strip s"])
qed

lemma py_strip_nonempty_iff: "py_strip s \<noteq> [] \<longleftrightarrow> (\<exists>c\<in>set s. \<not> py_isspace c)"
  unfolding py_strip_def py_lstrip_def py_rstrip_def
  by (metis dropWhile_eq_Nil_conv set_rev Nil_is_rev_conv dropWhile_idem)

lemma py_lstrip_append: "\<exists>c\<in>set a. \<not> py_isspace c \<Longrightarrow> py_lstrip (a @ x) = py_lstrip a @ x"
  unfolding py_lstrip_def by (auto simp: dropWhile_append1)

lemma py_rstrip_append: "\<exists>c\<in>set b. \<not> py_isspace c \<Longrightarrow> py_rstrip (y @ b) = y @ py_rstrip b"
  unfolding py_rstrip_def by (auto simp: dropWhile_append1)

lemma py_strip_append3:
  assumes "\<exists>c\<in>set a. \<not> py_isspace c" and "\<exists>c\<in>set b. \<not> py_isspace c"
  shows "py_strip (a @ m @ b) = py_lstrip a @ m @ py_rstrip b"
proof -
  have "py_lstrip (a @ m @ b) = py_lstrip a @ m @ b"
    using assms(1) by (rule py_lstrip_append)
  moreover have "py_rstrip ((py_lstrip a @ m) @ b) = (py_lstrip a @ m) @ py_rstrip b"
    using assms(2) by (rule py_rstrip_append)
  ultimately show ?thesis by (simp add: py_strip_def)
qed

section \<open>Collapsing newlines\<close>

lemma sub_newlines_run:
  assumes "y = [] \<or> hd y \<noteq> nl"
  shows "sub_newlines (replicate n nl @ y) = replicate (if 3 \<le> n then 2 else n) nl @ sub_newlines y"
proof -
  have tw: "takeWhile (\<lambda>x. x = nl) (replicate k nl @ y) = replicate k nl" for k
    using assms by (induction k) (auto simp: takeWhile_eq_Nil_iff)
  have dw: "dropWhile (\<lambda>x. x = nl) (replicate k nl @ y) = y" for k
    using assms by (induction k) (auto simp: dropWhile_eq_self_iff)
  have y0: "sub_newlines (nl # y) = nl # sub_newlines y"
    using tw [of 1] by simp
  have y1: "sub_newlines (nl # nl # y) = nl # nl # sub_newlines y"
    using tw [of 2] tw [of 1] by (simp add: numeral_2_eq_2)
  consider "n = 0" | "n = Suc 0" | "n = Suc (Suc 0)" | "3 \<le> n" by linarith
  then show ?thesis
  proof cases
    case 1
    then show ?thesis by simp
  next
    case 2
    have "replicate (Suc 0) nl @ y = nl # y" by simp
    with y0 show ?thesis unfolding 2 by (simp only: if_False replicate.simps append.simps
      numeral_3_eq_3 not_less_eq_eq Suc_le_mono le_0_eq nat.simps)
  next
    case 3
    have "replicate (Suc (Suc 0)) nl @ y = nl # nl # y" by simp
    with y1 show ?thesis unfolding 3 by (simp only: if_False replicate.simps append.simps
      numeral_3_eq_3 not_less_eq_eq Suc_le_mono le_0_eq nat.simps)
  next
    case 4
    then obtain k where n: "n = Suc k" and k: "2 \<le> k" by (cases n) auto
    have "sub_newlines (nl # replicate k nl @ y) = nl # nl # sub_newlines y"
      using tw [of "Suc k"] dw [of k] k by simp
    with 4 n show ?thesis by (simp add: numeral_2_eq_2)
  qed
qed

lemma sub_newlines_append:
  "x = [] \<or> last x \<noteq> nl \<Longrightarrow> sub_newlines (x @ z) = sub_newlines x @ sub_newlines z"
proof (induction x rule: sub_newlines.induct)
  case 1
  then show ?case by simp
next
  case (2 c cs)
  show ?case
  proof (cases "c = nl \<and> 3 \<le> length (takeWhile (\<lambda>x. x = nl) (c # cs))")
    case True
    from 2(3) True have ex: "\<exists>x\<in>set cs. \<not> x = nl"
      by (cases "cs = []") (auto simp: last_in_set)
    then have tw: "takeWhile (\<lambda>x. x = nl) (cs @ z) = takeWhile (\<lambda>x. x = nl) cs"
      by auto
    from ex have dw: "dropWhile (\<lambda>x. x = nl) (cs @ z) = dropWhile (\<lambda>x. x = nl) cs @ z"
      by auto
    from ex have ne: "dropWhile (\<lambda>x. x = nl) cs \<noteq> []" by simp
    have "last (dropWhile (\<lambda>x. x = nl) cs) = last cs"
      using ne by (metis dropWhile_eq_drop last_drop drop_eq_Nil not_le)
    moreover have "last cs \<noteq> nl" using 2(3) ex by (cases "cs = []") auto
    ultimately have d: "dropWhile (\<lambda>x. x = nl) cs = [] \<or> last (dropWhile (\<lambda>x. x = nl) cs) \<noteq> nl"
      by simp
    have "sub_newlines (dropWhile (\<lambda>x. x = nl) cs @ z)
        = sub_newlines (dropWhile (\<lambda>x. x = nl) cs) @ sub_newlines z"
      by (rule 2(1) [OF True d])
    moreover from True have c: "c = nl" and "2 \<le> length (takeWhile (\<lambda>x. x = nl) cs)"
      by auto
    ultimately show ?thesis using tw dw by simp
  next
    case False
    have "cs = [] \<or> last cs \<noteq> nl" using 2(3) by (cases "cs = []") auto
    then have ih: "sub_newlines (cs @ z) = sub_newlines cs @ sub_newlines z"
      by (rule 2(2) [OF False])
    show ?thesis
    proof (cases "c = nl")
      case c: True
      with False have short: "length (takeWhile (\<lambda>x. x = nl) cs) < 2" by simp
      have "cs \<noteq> []" using c 2(3) by auto
      then have ex: "\<exists>x\<in>set cs. \<not> x = nl" using 2(3) c by (auto simp: last_in_set)
      then have tw: "takeWhile (\<lambda>x. x = nl) (cs @ z) = takeWhile (\<lambda>x. x = nl) cs"
        by auto
      from c short tw ih show ?thesis by simp
    next
      case c: False
      with ih show ?thesis by simp
    qed
  qed
qed

lemma sub_newlines_inner_run:
  assumes "x = [] \<or> last x \<noteq> nl" and "y = [] \<or> hd y \<noteq> nl"
  shows "sub_newlines (x @ replicate n nl @ y)
       = sub_newlines x @ replicate (if 3 \<le> n then 2 else n) nl @ sub_newlines y"
  using sub_newlines_append [OF assms(1)] sub_newlines_run [OF assms(2)] by simp

text \<open>
  Claim C7, as amended. \<open>clean_text\<close> first trims the white space around the text, so
  a run of newlines at the very start or end of the input is removed altogether. Inside
  the trimmed text every run of newlines is treated on its own: for a run of \<open>n\<close>
  newlines between a part \<open>a\<close> that holds a character other than white space and does
  not end with a newline, and a part \<open>b\<close> that holds such a character and does not
  start with a newline, the result has two newlines there when \<open>n\<close> is three or more,
  and the \<open>n\<close> newlines unchanged when \<open>n\<close> is one or two.
\<close>

theorem clean_text_collapses_inner_runs:
  assumes "\<exists>c\<in>set a. \<not> py_isspace c" and "last a \<noteq> nl"
    and "\<exists>c\<in>set b. \<not> py_isspace c" and "hd b \<noteq> nl"
  shows "clean_text (Some (a @ replicate n nl @ b))
       = sub_newlines (py_lstrip a) @ replicate (if 3 \<le> n then 2 else n) nl
           @ sub_newlines (py_rstrip b)"
proof -
  have la: "py_lstrip a \<noteq> []"
    using assms(1) by (simp add: py_lstrip_def)
  have rb: "py_rstrip b \<noteq> []"
    using assms(3) by (simp add: py_rstrip_def)
  have l: "py_lstrip a = [] \<or> last (py_lstrip a) \<noteq> nl"
    using la assms(2) by (simp add: py_lstrip_last)
  have h: "py_rstrip b = [] \<or> hd (py_rstrip b) \<noteq> nl"
    using rb assms(4) by (simp add: py_rstrip_hd)
  have "clean_text (Some (a @ replicate n nl @ b))
      = sub_newlines (py_lstrip a @ replicate n nl @ py_rstrip b)"
    by (simp add: clean_text_def py_strip_append3 [OF assms(1) assms(3)])
  also have "\<dots> = sub_newlines (py_lstrip a) @ replicate (if 3 \<le> n then 2 else n) nl
           @ sub_newlines (py_rstrip b)"
    by (rule sub_newlines_inner_run [OF l h])
  finally show ?thesis .
qed

theorem clean_text_collapses_inner_runs_witness:
  "(\<exists>c\<in>set (ustr ''a''). \<not> py_isspace c) \<and> last (ustr ''a'') \<noteq> nl \<and>
   (\<exists>c\<in>set (ustr ''b''). \<not> py_isspace c) \<and> hd (ustr ''b'') \<noteq> nl \<and>
   clean_text (Some (ustr ''a'' @ replicate 5 nl @ ustr ''b'')) = ustr ''a\<newline>\<newline>b''"
  using clean_text_collapses_inner_runs [of "ustr ''a''" "ustr ''b''" 5]
  by (simp add: py_isspace_def py_lstrip_def py_rstrip_def numeral_2_eq_2)

text \<open>
  Claim C7, as stated, fails where the run touches an end of the text: five newlines
  before \<open>abc\<close> leave no newline at all, and a single newline after \<open>abc\<close> is not
  left unchanged.
\<close>

theorem clean_text_edge_run_counterexample:
  "clean_text (Some (ustr ''\<newline>\<newline>\<newline>\<newline>\<newline>abc'')) = ustr ''abc'' \<and>
   clean_text (Some (ustr ''abc\<newline>'')) = ustr ''abc''"
  by (simp add: clean_text_def py_strip_def py_lstrip_def py_rstrip_def py_isspace_def)

section \<open>Normalizing a history\<close>

lemma map_of_role [simp]:
  "map_of [(ustr ''role'', r), (ustr ''content'', c)] (ustr ''role'') = Some r"
  by simp

lemma map_of_content [simp]:
  "map_of [(ustr ''role'', r), (ustr ''content'', c)] (ustr ''content'') = Some c"
  by simp

lemma turn_role_role_content [simp]: "turn_role (role_content (PyStr r) c) = r"
  by (simp add: turn_role_def role_content_def)

lemma turn_content_role_content [simp]: "turn_content (role_content r (PyStr c)) = c"
  by (simp add: turn_content_def role_content_def)

lemma normalize_item_eq:
  "normalize_item m = (if is_valid_entry m then Some (trimmed_turn m) else None)"
  by (auto simp: normalize_item_def is_valid_entry_def trimmed_turn_def turn_role_def
      turn_content_def dict_get_def Let_def split: pyval.splits option.splits)

lemma normalize_loop_eq:
  "normalize_loop ms out = out @ map trimmed_turn (filter is_valid_entry ms)"
  by (induction ms arbitrary: out) (simp_all add: normalize_item_eq)

lemma is_valid_entry_role:
  "is_valid_entry m \<Longrightarrow> turn_role m = ustr ''user'' \<or> turn_role m = ustr ''assistant''"
  by (auto simp: is_valid_entry_def turn_role_def split: pyval.splits option.splits)

lemma is_valid_entry_content: "is_valid_entry m \<Longrightarrow> py_strip (turn_content m) \<noteq> []"
  by (auto simp: is_valid_entry_def turn_content_def split: pyval.splits option.splits)

lemma is_turn_trimmed_turn: "is_valid_entry m \<Longrightarrow> is_turn (trimmed_turn m)"
  using is_valid_entry_role [of m] is_valid_entry_content [of m]
  by (auto simp: is_turn_def trimmed_turn_def py_strip_idem)

lemma is_valid_entry_role_content:
  "is_valid_entry (role_content (PyStr r) (PyStr c)) \<longleftrightarrow>
     (r = ustr ''user'' \<or> r = ustr ''assistant'') \<and> py_strip c \<noteq> []"
  by (simp add: is_valid_entry_def role_content_def)

lemma is_turn_valid:
  assumes "is_turn t"
  shows "is_valid_entry t"
proof -
  from assms have eq: "t = role_content (PyStr (turn_role t)) (PyStr (turn_content t))"
    and r: "turn_role t = ustr ''user'' \<or> turn_role t = ustr ''assistant''"
    and c: "py_strip (turn_content t) \<noteq> []"
    by (simp_all add: is_turn_def)
  from r c have "is_valid_entry (role_content (PyStr (turn_role t)) (PyStr (turn_content t)))"
    by (simp only: is_valid_entry_role_content simp_thms)
  with eq show ?thesis by simp
qed

lemma is_turn_trimmed_id: "is_turn t \<Longrightarrow> trimmed_turn t = t"
  by (simp add: is_turn_def trimmed_turn_def)

lemma normalize_loop_turns: "\<forall>t\<in>set (normalize_loop ms []). is_turn t"
  by (auto simp: normalize_loop_eq is_turn_trimmed_turn)

lemma normalize_loop_id_on_turns:
  "\<forall>t\<in>set ts. is_turn t \<Longrightarrow> normalize_loop ts [] = ts"
proof -
  assume a: "\<forall>t\<in>set ts. is_turn t"
  then have "filter is_valid_entry ts = ts" by (auto simp: is_turn_valid)
  moreover from a have "map trimmed_turn ts = ts"
    by (induction ts) (simp_all add: is_turn_trimmed_id)
  ultimately show ?thesis by (simp add: normalize_loop_eq)
qed

lemma normalize_loop_idem: "normalize_loop (normalize_loop ms []) [] = normalize_loop ms []"
  by (rule normalize_loop_id_on_turns) (rule normalize_loop_turns)

lemma normalize_history_eq:
  "normalize_history w raw = (length (heap w), w\<lparr>heap := heap w @ [normalized w raw]\<rparr>)"
  by (simp add: normalize_history_def new_list_def normalized_def)

lemma transcript_line_turn: "is_turn t \<Longrightarrow> transcript_line env t = Inr (turn_line t)"
proof -
  assume t: "is_turn t"
  then have eq: "t = role_content (PyStr (turn_role t)) (PyStr (turn_content t))"
    by (simp add: is_turn_def)
  have "transcript_line env (role_content (PyStr r) (PyStr c))
      = Inr (turn_line (role_content (PyStr r) (PyStr c)))" for r c
    by (simp add: transcript_line_def subscript_def role_content_def turn_line_def
        format_value_def turn_role_def turn_content_def)
  with eq show ?thesis by metis
qed

lemma transcript_loop_turns:
  "\<forall>t\<in>set ts. is_turn t \<Longrightarrow> transcript_loop env ts lines = Inr (lines @ map turn_line ts)"
  by (induction ts arbitrary: lines) (simp_all add: transcript_line_turn)

lemma history_to_transcript_eq:
  "history_to_transcript env w raw =
     (Inr (py_join [nl] (map turn_line (normalized w raw))),
      w\<lparr>heap := heap w @ [normalized w raw]\<rparr>)"
  using normalize_loop_turns [of "items_or_empty w raw"]
  by (simp add: history_to_transcript_def normalize_history_eq transcript_loop_turns
      normalized_def)

lemma normalized_of_fresh:
  "normalized (w\<lparr>heap := heap w @ [normalized w raw]\<rparr>) (Some (length (heap w))) = normalized w raw"
  by (simp add: normalized_def items_or_empty_def normalize_loop_idem)

text \<open>
  Claim C1. For every raw history, the list that \<open>normalize_history\<close> returns is the
  list of the valid entries of the input, in the order of the input, each with its content
  trimmed; so every element of it is a turn (role \<open>user\<close> or \<open>assistant\<close>, content a
  string that is not empty after trimming), and an entry of the input that is not valid
  is not in it.
\<close>

theorem normalize_history_keeps_valid_turns_in_order:
  assumes "normalize_history w raw = (r, w')"
  shows "heap w' ! r = map trimmed_turn (filter is_valid_entry (items_or_empty w raw)) \<and>
         (\<forall>t\<in>set (heap w' ! r). is_turn t) \<and>
         (\<forall>m\<in>set (items_or_empty w raw). \<not> is_valid_entry m \<longrightarrow> m \<notin> set (heap w' ! r))"
proof -
  from assms have r: "heap w' ! r = normalize_loop (items_or_empty w raw) []"
    by (auto simp: normalize_history_eq normalized_def)
  have "\<forall>t\<in>set (heap w' ! r). is_turn t"
    unfolding r by (rule normalize_loop_turns)
  then show ?thesis
    using is_turn_valid by (auto simp: r normalize_loop_eq)
qed

theorem normalize_history_keeps_valid_turns_in_order_witness:
  "normalize_history sample_world (Some 0)
     = (1, sample_world\<lparr>heap := [sample_history, sample_turns]\<rparr>) \<and>
   map trimmed_turn (filter is_valid_entry sample_history) = sample_turns \<and>
   list_all is_turn sample_turns \<and>
   PyNone \<in> set sample_history \<and> \<not> is_valid_entry PyNone \<and> PyNone \<notin> set sample_turns"
  using normalize_history_keeps_valid_turns_in_order [of sample_world "Some 0" 1
      "sample_world\<lparr>heap := [sample_history, sample_turns]\<rparr>"]
  by (simp add: normalize_history_def new_list_def items_or_empty_def sample_world_def
      sample_history_def sample_turns_def normalize_item_def dict_get_def role_content_def
      py_strip_def py_lstrip_def py_rstrip_def py_isspace_def is_valid_entry_def is_turn_def
      turn_role_def turn_content_def trimmed_turn_def)

text \<open>
  Claim C10. For every raw history, the transcript of the raw history is the transcript
  of its normalized form: \<open>history_to_transcript\<close> normalizes its argument itself. The
  transcript is made of one line for each kept turn, \<open>User: \<close> or \<open>Assistant: \<close>
  followed by the content, in order and joined by single newlines; the kept turns are the
  valid entries of the input, so a malformed entry gives no line.
\<close>

theorem history_to_transcript_normalizes_internally:
  assumes "normalize_history w raw = (r, w1)"
  shows "fst (history_to_transcript env w1 (Some r)) = fst (history_to_transcript env w raw) \<and>
         fst (history_to_transcript env w raw) = Inr (py_join [nl] (map turn_line (heap w1 ! r))) \<and>
         heap w1 ! r = map trimmed_turn (filter is_valid_entry (items_or_empty w raw))"
proof -
  from assms have r: "r = length (heap w)" and w1: "w1 = w\<lparr>heap := heap w @ [normalized w raw]\<rparr>"
    by (auto simp: normalize_history_eq)
  show ?thesis
    by (simp add: r w1 history_to_transcript_eq normalized_of_fresh)
       (simp add: normalized_def normalize_loop_eq)
qed

theorem history_to_transcript_normalizes_internally_witness:
  "normalize_history sample_world (Some 0)
     = (1, sample_world\<lparr>heap := [sample_history, sample_turns]\<rparr>) \<and>
   fst (history_to_transcript sample_env
          (sample_world\<lparr>heap := [sample_history, sample_turns]\<rparr>) (Some 1))
     = Inr (ustr ''User: hi\<newline>Assistant: Hello'') \<and>
   fst (history_to_transcript sample_env sample_world (Some 0))
     = Inr (ustr ''User: hi\<newline>Assistant: Hello'')"
  using history_to_transcript_normalizes_internally [of sample_world "Some 0" 1
      "sample_world\<lparr>heap := [sample_history, sample_turns]\<rparr>" sample_env]
  by (simp add: normalize_history_def new_list_def items_or_empty_def sample_world_def
      sample_history_def sample_turns_def normalize_item_def dict_get_def role_content_def
      py_strip_def py_lstrip_def py_rstrip_def py_isspace_def turn_line_def
      turn_role_def turn_content_def history_to_transcript_eq normalized_def
      is_valid_entry_def trimmed_turn_def)

section \<open>Reading a document\<close>

lemma file_to_text_total: "file_to_text env p = Inr (document_text env p)"
  by (simp add: document_text_def file_to_text_def Let_def split: option.splits sum.splits)

text \<open>
  Claim C6. \<open>file_to_text\<close> never raises, whatever the path: its result is never an
  exception. It is the empty string when the path is missing or empty, when the extension
  (in lower case) is none of \<open>.txt\<close>, \<open>.md\<close>, \<open>.pdf\<close>, \<open>.docx\<close>, and when an
  exception is raised while the file is read or parsed.
\<close>

theorem file_to_text_never_raises:
  "file_to_text env p \<noteq> Inl e \<and>
   file_to_text env None = Inr [] \<and>
   file_to_text env (Some []) = Inr [] \<and>
   (str_lower env (snd (os_path_splitext env q))
      \<notin> {ustr ''.txt'', ustr ''.md'', ustr ''.pdf'', ustr ''.docx''}
    \<longrightarrow> file_to_text env (Some q) = Inr []) \<and>
   (file_to_text_try env q (str_lower env (snd (os_path_splitext env q))) = Inl x
    \<longrightarrow> file_to_text env (Some q) = Inr [])"
proof -
  have "file_to_text env p \<noteq> Inl e"
    by (simp add: file_to_text_total)
  then show ?thesis
    by (simp add: file_to_text_def file_to_text_try_def Let_def)
qed

theorem file_to_text_never_raises_witness:
  "file_to_text sample_env (Some (ustr ''data.csv'')) \<noteq> Inl OSError \<and>
   str_lower sample_env (snd (os_path_splitext sample_env (ustr ''data.csv''))) = ustr ''.csv'' \<and>
   ustr ''.csv'' \<notin> {ustr ''.txt'', ustr ''.md'', ustr ''.pdf'', ustr ''.docx''} \<and>
   file_to_text sample_env (Some (ustr ''data.csv'')) = Inr [] \<and>
   file_to_text_try sample_env (ustr ''CV.DOCX'')
     (str_lower sample_env (snd (os_path_splitext sample_env (ustr ''CV.DOCX''))))
     = Inl ImportError \<and>
   file_to_text sample_env (Some (ustr ''CV.DOCX'')) = Inr []"
  using file_to_text_never_raises [of sample_env "Some (ustr ''data.csv'')" OSError
      "ustr ''data.csv''" ImportError]
    file_to_text_never_raises [of sample_env "Some (ustr ''CV.DOCX'')" OSError
      "ustr ''CV.DOCX''" ImportError]
  by (simp add: sample_env_def posix_splitext_def after_last_def ascii_lower_def
      file_to_text_try_def Let_def)

section \<open>A chat turn\<close>

lemma py_strip_Nil [simp]: "py_strip [] = []"
  by (simp add: py_strip_def py_lstrip_def py_rstrip_def)

lemma chat_request_of_fresh:
  "chat_request env (w\<lparr>heap := heap w @ [normalized w raw]\<rparr>) um (Some (length (heap w))) path
     = chat_request env w um raw path"
  by (simp add: chat_request_def normalized_of_fresh)

lemma persona_chat_eq:
  "persona_chat env w um raw path =
     (case chat_completions_create env (length (gw_log w)) (chat_request env w um raw path) of
        Inl e \<Rightarrow> Inl e
      | Inr None \<Rightarrow> Inl AttributeError
      | Inr (Some c) \<Rightarrow> Inr (py_strip c),
      w\<lparr>heap := heap w @ [normalized w raw],
        gw_log := gw_log w @ [chat_request env w um raw path]\<rparr>)"
  by (simp add: persona_chat_def normalize_history_eq file_to_text_total gateway_call_def
      chat_request_def split: sum.splits option.splits)

lemma handle_submit_blank:
  assumes "um = None \<or> (\<exists>s. um = Some s \<and> py_strip s = [])"
  shows "handle_submit env w um raw path =
           (Inr ([], length (heap w)), w\<lparr>heap := heap w @ [normalized w raw]\<rparr>)"
  using assms by (auto simp: handle_submit_def normalize_history_eq)

lemma handle_submit_eq:
  assumes "py_strip s \<noteq> []"
  shows "handle_submit env w (Some s) raw path =
     (case chat_completions_create env (length (gw_log w))
             (chat_request env w (py_strip s) raw path) of
        Inl e \<Rightarrow>
          (Inl e,
           w\<lparr>heap := heap w @ [normalized w raw, normalized w raw],
             gw_log := gw_log w @ [chat_request env w (py_strip s) raw path]\<rparr>)
      | Inr None \<Rightarrow>
          (Inl AttributeError,
           w\<lparr>heap := heap w @ [normalized w raw, normalized w raw],
             gw_log := gw_log w @ [chat_request env w (py_strip s) raw path]\<rparr>)
      | Inr (Some c) \<Rightarrow>
          (Inr ([], length (heap w)),
           w\<lparr>heap := heap w @
                 [normalized w raw @
                    [role_content (PyStr (ustr ''user'')) (PyStr (py_strip s)),
                     role_content (PyStr (ustr ''assistant'')) (PyStr (py_strip c))],
                  normalized w raw],
             gw_log := gw_log w @ [chat_request env w (py_strip s) raw path]\<rparr>))"
proof -
  from assms have s: "s \<noteq> []" by auto
  show ?thesis
    using assms s
    by (simp add: handle_submit_def normalize_history_eq persona_chat_eq
        chat_request_of_fresh normalized_of_fresh list_append_def nth_append
        split: sum.splits option.splits)
qed

text \<open>
  Claim C2, as amended. Called with no message, or with one that is empty or all white
  space, \<open>handle_submit\<close> returns the empty string with a new list that holds the
  normalized history, the valid entries of the history it was given, each trimmed and in
  order, and sends nothing to the completion endpoint. The list returned has the elements of
  the history given when every entry of that history is already a turn.
\<close>

theorem handle_submit_blank_message:
  assumes "um = None \<or> (\<exists>s. um = Some s \<and> py_strip s = [])"
  shows "handle_submit env w um raw path =
           (Inr ([], length (heap w)), w\<lparr>heap := heap w @ [normalized w raw]\<rparr>) \<and>
         gw_log (snd (handle_submit env w um raw path)) = gw_log w \<and>
         normalized w raw = map trimmed_turn (filter is_valid_entry (items_or_empty w raw)) \<and>
         (list_all is_turn (items_or_empty w raw) \<longrightarrow> normalized w raw = items_or_empty w raw)"
  using assms
  by (simp add: handle_submit_blank normalized_def normalize_loop_eq [of _ "[]", simplified]
      normalize_loop_id_on_turns [unfolded normalize_loop_eq, simplified] list_all_iff)

theorem handle_submit_blank_message_witness:
  "py_strip (ustr ''   '') = [] \<and>
   handle_submit sample_env sample_world (Some (ustr ''   '')) (Some 0) None =
     (Inr ([], 1), sample_world\<lparr>heap := [sample_history, sample_turns]\<rparr>) \<and>
   gw_log (snd (handle_submit sample_env sample_world (Some (ustr ''   '')) (Some 0) None)) = [] \<and>
   list_all is_turn sample_turns \<and>
   handle_submit sample_env (sample_world\<lparr>heap := [sample_turns]\<rparr>) None (Some 0) None =
     (Inr ([], 1), sample_world\<lparr>heap := [sample_turns, sample_turns]\<rparr>)"
  using handle_submit_blank_message [of "Some (ustr ''   '')" sample_env sample_world "Some 0" None]
    handle_submit_blank_message [of None sample_env "sample_world\<lparr>heap := [sample_turns]\<rparr>"
      "Some 0" None]
  by (simp add: normalized_def items_or_empty_def sample_world_def
      sample_history_def sample_turns_def normalize_item_def dict_get_def role_content_def
      py_strip_def py_lstrip_def py_rstrip_def py_isspace_def is_valid_entry_def is_turn_def
      turn_role_def turn_content_def trimmed_turn_def)

text \<open>
  Claim C2, as stated, fails for a history with entries that are not turns: with a message
  of three blanks and the sample history, the history returned holds the two kept turns
  only, not the five entries it was given.
\<close>

theorem handle_submit_blank_message_counterexample:
  "handle_submit sample_env sample_world (Some (ustr ''   '')) (Some 0) None =
     (Inr ([], 1), sample_world\<lparr>heap := [sample_history, sample_turns]\<rparr>) \<and>
   heap (sample_world\<lparr>heap := [sample_history, sample_turns]\<rparr>) ! 1 = sample_turns \<and>
   sample_turns \<noteq> sample_history \<and>
   items_or_empty sample_world (Some 0) = sample_history"
  by (simp add: handle_submit_def normalize_history_def new_list_def items_or_empty_def
      sample_world_def sample_history_def sample_turns_def normalize_item_def dict_get_def
      role_content_def py_strip_def py_lstrip_def py_rstrip_def py_isspace_def)

text \<open>
  Claim C3. For a message that is not blank: when the call of the completion endpoint
  raises, \<open>handle_submit\<close> raises the same exception, one request has been sent and none
  after it, and no list holds a new turn, the only new lists being the two normalized
  copies of the history. When the call answers, the user turn and the assistant turn are
  appended together to the list that is returned.
\<close>

theorem handle_submit_commits_only_after_reply:
  assumes "py_strip s \<noteq> []"
  shows "(chat_completions_create env (length (gw_log w))
            (chat_request env w (py_strip s) raw path) = Inl e \<longrightarrow>
          handle_submit env w (Some s) raw path =
            (Inl e,
             w\<lparr>heap := heap w @ [normalized w raw, normalized w raw],
               gw_log := gw_log w @ [chat_request env w (py_strip s) raw path]\<rparr>)) \<and>
         (chat_completions_create env (length (gw_log w))
            (chat_request env w (py_strip s) raw path) = Inr (Some c) \<longrightarrow>
          handle_submit env w (Some s) raw path =
            (Inr ([], length (heap w)),
             w\<lparr>heap := heap w @
                   [normalized w raw @
                      [role_content (PyStr (ustr ''user'')) (PyStr (py_strip s)),
                       role_content (PyStr (ustr ''assistant'')) (PyStr (py_strip c))],
                    normalized w raw],
               gw_log := gw_log w @ [chat_request env w (py_strip s) raw path]\<rparr>))"
proof (intro conjI impI)
  assume "chat_completions_create env (length (gw_log w))
            (chat_request env w (py_strip s) raw path) = Inl e"
  then show "handle_submit env w (Some s) raw path =
            (Inl e,
             w\<lparr>heap := heap w @ [normalized w raw, normalized w raw],
               gw_log := gw_log w @ [chat_request env w (py_strip s) raw path]\<rparr>)"
    unfolding handle_submit_eq [OF assms] by simp
next
  assume "chat_completions_create env (length (gw_log w))
            (chat_request env w (py_strip s) raw path) = Inr (Some c)"
  then show "handle_submit env w (Some s) raw path =
            (Inr ([], length (heap w)),
             w\<lparr>heap := heap w @
                   [normalized w raw @
                      [role_content (PyStr (ustr ''user'')) (PyStr (py_strip s)),
                       role_content (PyStr (ustr ''assistant'')) (PyStr (py_strip c))],
                    normalized w raw],
               gw_log := gw_log w @ [chat_request env w (py_strip s) raw path]\<rparr>)"
    unfolding handle_submit_eq [OF assms] by simp
qed

theorem handle_submit_commits_only_after_reply_witness:
  "py_strip (ustr ''Hello'') \<noteq> [] \<and>
   chat_completions_create failing_env (length (gw_log sample_world))
     (chat_request failing_env sample_world (py_strip (ustr ''Hello'')) (Some 0) None)
     = Inl ProviderError \<and>
   handle_submit failing_env sample_world (Some (ustr ''Hello'')) (Some 0) None =
     (Inl ProviderError,
      sample_world\<lparr>heap := [sample_history, sample_turns, sample_turns],
        gw_log := [chat_request failing_env sample_world (ustr ''Hello'') (Some 0) None]\<rparr>) \<and>
   chat_completions_create sample_env (length (gw_log sample_world))
     (chat_request sample_env sample_world (py_strip (ustr ''Hello'')) (Some 0) None)
     = Inr (Some (ustr ''Hi there'')) \<and>
   handle_submit sample_env sample_world (Some (ustr ''Hello'')) (Some 0) None =
     (Inr ([], 1),
      sample_world\<lparr>heap :=
          [sample_history,
           sample_turns @
             [role_content (PyStr (ustr ''user'')) (PyStr (ustr ''Hello'')),
              role_content (PyStr (ustr ''assistant'')) (PyStr (ustr ''Hi there''))],
           sample_turns],
        gw_log := [chat_request sample_env sample_world (ustr ''Hello'') (Some 0) None]\<rparr>)"
proof -
  have n: "normalized sample_world (Some 0) = sample_turns"
    by (simp add: normalized_def items_or_empty_def sample_world_def
      sample_history_def sample_turns_def normalize_item_def dict_get_def role_content_def
      py_strip_def py_lstrip_def py_rstrip_def py_isspace_def)
  have h: "heap sample_world = [sample_history]" "gw_log sample_world = []"
    by (simp_all add: sample_world_def)
  show ?thesis
    using handle_submit_commits_only_after_reply [of "ustr ''Hello''" failing_env sample_world
        "Some 0" None ProviderError "[]"]
      handle_submit_commits_only_after_reply [of "ustr ''Hello''" sample_env sample_world
        "Some 0" None ProviderError "ustr ''Hi there''"]
    by (simp add: n h failing_env_def sample_env_def py_strip_def py_lstrip_def py_rstrip_def
        py_isspace_def)
qed

section \<open>The history handed back\<close>

lemma is_turn_role_content:
  "is_turn (role_content (PyStr r) (PyStr c)) \<longleftrightarrow>
     (r = ustr ''user'' \<or> r = ustr ''assistant'') \<and> c \<noteq> [] \<and> py_strip c = c"
  by (simp add: is_turn_def)

lemma list_all_is_turn_normalized: "list_all is_turn (normalized w raw)"
  using normalize_loop_turns [of "items_or_empty w raw"]
  by (simp add: normalized_def list_all_iff)

text \<open>
  Claim C8. After a completion that answers \<open>c\<close> to a message that is not blank, the
  history that \<open>handle_submit\<close> returns is the normalized history followed by the user
  turn and an assistant turn whose content is \<open>c\<close> trimmed; every element of it is a turn
  exactly when \<open>c\<close> holds a character other than white space. An answer of white space
  only gives an assistant turn with empty content, which \<open>normalize_history\<close> itself
  would drop.
\<close>

theorem handle_submit_turns_valid_iff_reply_not_blank:
  assumes "py_strip s \<noteq> []"
    and "chat_completions_create env (length (gw_log w))
           (chat_request env w (py_strip s) raw path) = Inr (Some c)"
  shows "fst (handle_submit env w (Some s) raw path) = Inr ([], length (heap w)) \<and>
         heap (snd (handle_submit env w (Some s) raw path)) ! length (heap w) =
           normalized w raw @
             [role_content (PyStr (ustr ''user'')) (PyStr (py_strip s)),
              role_content (PyStr (ustr ''assistant'')) (PyStr (py_strip c))] \<and>
         list_all is_turn (heap (snd (handle_submit env w (Some s) raw path)) ! length (heap w))
           = (py_strip c \<noteq> [])"
  using assms
  by (simp add: handle_submit_eq nth_append is_turn_role_content py_strip_idem
      list_all_is_turn_normalized)

theorem handle_submit_turns_valid_iff_reply_not_blank_witness:
  "py_strip (ustr ''Hello'') \<noteq> [] \<and>
   chat_completions_create blank_env (length (gw_log fresh_world))
     (chat_request blank_env fresh_world (py_strip (ustr ''Hello'')) (Some 0) None)
     = Inr (Some (ustr ''   '')) \<and>
   fst (handle_submit blank_env fresh_world (Some (ustr ''Hello'')) (Some 0) None) = Inr ([], 1) \<and>
   heap (snd (handle_submit blank_env fresh_world (Some (ustr ''Hello'')) (Some 0) None)) ! 1 =
     [role_content (PyStr (ustr ''user'')) (PyStr (ustr ''Hello'')),
      role_content (PyStr (ustr ''assistant'')) (PyStr [])] \<and>
   \<not> list_all is_turn
       (heap (snd (handle_submit blank_env fresh_world (Some (ustr ''Hello'')) (Some 0) None)) ! 1)"
proof -
  have n: "normalized fresh_world (Some 0) = []"
    by (simp add: normalized_def items_or_empty_def fresh_world_def)
  have h: "heap fresh_world = [[]]" "gw_log fresh_world = []"
    by (simp_all add: fresh_world_def)
  show ?thesis
    using handle_submit_turns_valid_iff_reply_not_blank [of "ustr ''Hello''" blank_env fresh_world
        "Some 0" None "ustr ''   ''"]
    by (simp add: n h blank_env_def sample_env_def py_strip_def py_lstrip_def py_rstrip_def
        py_isspace_def is_turn_role_content)
qed

text \<open>
  Claim C9. Whatever the message and whatever the outcome of the call, every list that
  existed before the call of \<open>handle_submit\<close>, the history passed in among them, has the
  same elements after it; the history handed back is a list allocated during the call,
  which holds the normalized history, followed by the two new turns after a reply.
\<close>

theorem handle_submit_leaves_input_history:
  assumes "handle_submit env w um raw path = (res, w')"
  shows "take (length (heap w)) (heap w') = heap w \<and>
         (r < length (heap w) \<longrightarrow> heap w' ! r = heap w ! r) \<and>
         (res = Inr (t, r') \<longrightarrow>
            length (heap w) \<le> r' \<and> r' < length (heap w') \<and>
            (heap w' ! r' = normalized w raw \<or>
             (\<exists>u a. heap w' ! r' = normalized w raw @ [u, a])))"
proof (cases "um = None \<or> (\<exists>s. um = Some s \<and> py_strip s = [])")
  case True
  from assms show ?thesis
    unfolding handle_submit_blank [OF True] by (auto simp: nth_append)
next
  case False
  then obtain s where um: "um = Some s" and s: "py_strip s \<noteq> []" by auto
  from assms show ?thesis
    unfolding um handle_submit_eq [OF s]
    by (auto simp: nth_append split: sum.splits option.splits)
qed

theorem handle_submit_leaves_input_history_witness:
  "handle_submit sample_env sample_world (Some (ustr ''Hello'')) (Some 0) None =
     (Inr ([], 1),
      sample_world\<lparr>heap :=
          [sample_history,
           sample_turns @
             [role_content (PyStr (ustr ''user'')) (PyStr (ustr ''Hello'')),
              role_content (PyStr (ustr ''assistant'')) (PyStr (ustr ''Hi there''))],
           sample_turns],
        gw_log := [chat_request sample_env sample_world (ustr ''Hello'') (Some 0) None]\<rparr>) \<and>
   (0::nat) < length (heap sample_world) \<and>
   heap sample_world ! 0 = sample_history \<and>
   heap (snd (handle_submit sample_env sample_world (Some (ustr ''Hello'')) (Some 0) None)) ! 0
     = sample_history \<and>
   take (length (heap sample_world))
     [sample_history,
      sample_turns @
        [role_content (PyStr (ustr ''user'')) (PyStr (ustr ''Hello'')),
         role_content (PyStr (ustr ''assistant'')) (PyStr (ustr ''Hi there''))],
      sample_turns] = heap sample_world \<and>
   length (heap sample_world) \<le> 1"
proof -
  have n: "normalized sample_world (Some 0) = sample_turns"
    by (simp add: normalized_def items_or_empty_def sample_world_def
      sample_history_def sample_turns_def normalize_item_def dict_get_def role_content_def
      py_strip_def py_lstrip_def py_rstrip_def py_isspace_def)
  have h: "heap sample_world = [sample_history]" "gw_log sample_world = []"
    by (simp_all add: sample_world_def)
  have s: "py_strip (ustr ''Hello'') \<noteq> []"
    by (simp add: py_strip_def py_lstrip_def py_rstrip_def py_isspace_def)
  have e: "handle_submit sample_env sample_world (Some (ustr ''Hello'')) (Some 0) None =
     (Inr ([], 1),
      sample_world\<lparr>heap :=
          [sample_history,
           sample_turns @
             [role_content (PyStr (ustr ''user'')) (PyStr (ustr ''Hello'')),
              role_content (PyStr (ustr ''assistant'')) (PyStr (ustr ''Hi there''))],
           sample_turns],
        gw_log := [chat_request sample_env sample_world (ustr ''Hello'') (Some 0) None]\<rparr>)"
    unfolding handle_submit_eq [OF s]
    by (simp add: n h sample_env_def py_strip_def py_lstrip_def py_rstrip_def py_isspace_def)
  show ?thesis
    using e handle_submit_leaves_input_history [OF e, of 0 "[]" 1]
    by (simp add: h n)
qed

section \<open>The prompts\<close>

lemma generate_website_request:
  "gw_log (snd (generate_website env w raw path)) =
     gw_log w @
       [\<lparr>model = MODEL_NAME env,
         messages = website_messages (py_join [nl] (map turn_line (normalized w raw)))
                      (document_text env path),
         temperature = 0.6, max_tokens = 2200\<rparr>]"
  by (simp add: generate_website_def normalize_history_eq history_to_transcript_eq
      normalized_of_fresh file_to_text_total gateway_call_def Let_def
      split: sum.splits option.splits)

lemma persona_chat_request:
  "gw_log (snd (persona_chat env w um raw path)) = gw_log w @ [chat_request env w um raw path]"
  by (simp add: persona_chat_eq)

lemma not_context_system_prompt:
  "\<not> is_context_message (role_content (PyStr (ustr ''system'')) (PyStr SYSTEM_PROMPT))"
  by (simp add: is_context_message_def role_content_def dict_get_def turn_content_def
      SYSTEM_PROMPT_def)

lemma context_message_label:
  "is_context_message (role_content (PyStr (ustr ''system'')) (PyStr (CONTEXT_LABEL @ x)))"
  by (simp add: is_context_message_def role_content_def dict_get_def turn_content_def
      CONTEXT_LABEL_def)

lemma not_context_user:
  "\<not> is_context_message (role_content (PyStr (ustr ''user'')) c)"
  by (simp add: is_context_message_def role_content_def dict_get_def)

lemma not_context_turn: "is_turn t \<Longrightarrow> \<not> is_context_message t"
proof -
  assume t: "is_turn t"
  then have eq: "t = role_content (PyStr (turn_role t)) (PyStr (turn_content t))"
    and r: "turn_role t = ustr ''user'' \<or> turn_role t = ustr ''assistant''"
    by (simp_all add: is_turn_def)
  from r have "\<not> is_context_message (role_content (PyStr (turn_role t)) (PyStr (turn_content t)))"
    by (auto simp: is_context_message_def role_content_def dict_get_def)
  with eq show ?thesis by simp
qed

lemma filter_context_normalized: "filter is_context_message (normalized w raw) = []"
  using normalize_loop_turns [of "items_or_empty w raw"]
  by (auto simp: normalized_def filter_empty_conv not_context_turn)

lemma sub_newlines_no_newline: "nl \<notin> set xs \<Longrightarrow> sub_newlines xs = xs"
  by (induction xs) simp_all

lemma clean_text_replicate:
  assumes "\<not> py_isspace c" and "c \<noteq> nl"
  shows "clean_text (Some (replicate n c)) = replicate n c"
proof -
  have "py_strip (replicate n c) = replicate n c"
    using assms(1) by (cases n) (simp_all add: py_strip_def py_lstrip_id py_rstrip_id)
  then show ?thesis
    using assms(2) by (simp add: clean_text_def sub_newlines_no_newline)
qed

lemma document_text_long_env:
  "document_text long_env (Some (ustr ''long.txt'')) = replicate 9000 120"
proof -
  have "clean_text (Some (replicate 9000 120)) = replicate 9000 120"
    by (rule clean_text_replicate) (simp_all add: py_isspace_def)
  then show ?thesis
    by (simp add: document_text_def file_to_text_def file_to_text_try_def long_env_def
        sample_env_def posix_splitext_def after_last_def ascii_lower_def Let_def)
qed

text \<open>
  Claim C4. The text of the document is a result of \<open>file_to_text\<close>, and the prompt of
  \<open>generate_website\<close> holds its first 8000 characters at most, the prompt of
  \<open>persona_chat\<close> its first 6000 characters at most, however long the text is.
\<close>

theorem prompts_truncate_document_text:
  "file_to_text env path = Inr (document_text env path) \<and>
   messages (last (gw_log (snd (generate_website env w raw path)))) =
     [role_content (PyStr (ustr ''system'')) (PyStr WEBSITE_SYSTEM_PROMPT),
      role_content (PyStr (ustr ''user''))
        (PyStr (ustr ''Chat transcript:\<newline>'' @
                py_join [nl] (map turn_line (normalized w raw)) @
                ustr ''\<newline>\<newline>Resume/Profile text:\<newline>'' @
                take 8000 (document_text env path)))] \<and>
   length (take 8000 (document_text env path)) \<le> 8000 \<and>
   messages (last (gw_log (snd (persona_chat env w um raw path)))) =
     role_content (PyStr (ustr ''system'')) (PyStr SYSTEM_PROMPT) #
     (if document_text env path = [] then []
      else [role_content (PyStr (ustr ''system''))
              (PyStr (CONTEXT_LABEL @ take 6000 (document_text env path)))]) @
     normalized w raw @ [role_content (PyStr (ustr ''user'')) (PyStr um)] \<and>
   length (take 6000 (document_text env path)) \<le> 6000"
  by (simp add: file_to_text_total generate_website_request persona_chat_request
      website_messages_def chat_request_def chat_messages_def)

theorem prompts_truncate_document_text_witness:
  "length (document_text long_env (Some (ustr ''long.txt''))) = 9000 \<and>
   messages (last (gw_log (snd (generate_website long_env empty_world None
       (Some (ustr ''long.txt'')))))) ! 1 =
     role_content (PyStr (ustr ''user''))
        (PyStr (ustr ''Chat transcript:\<newline>'' @
                ustr ''\<newline>\<newline>Resume/Profile text:\<newline>'' @ replicate 8000 120)) \<and>
   messages (last (gw_log (snd (persona_chat long_env empty_world (ustr ''Hello'') None
       (Some (ustr ''long.txt'')))))) ! 1 =
     role_content (PyStr (ustr ''system'')) (PyStr (CONTEXT_LABEL @ replicate 6000 120))"
  using prompts_truncate_document_text [of long_env "Some (ustr ''long.txt'')" empty_world None
      "ustr ''Hello''"] document_text_long_env
  by (simp add: normalized_def items_or_empty_def)

text \<open>
  Claim C5. When the text of the document is not empty, the prompt of \<open>persona_chat\<close> holds
  the persona message first, then the system message that starts with the label
  \<open>Additional user context from uploaded resume/profile:\<close>, and that message is the only
  system message of the prompt that contains the label. When the text is empty, no message
  of the prompt is such a message.
\<close>

theorem chat_prompt_context_message:
  "(document_text env path \<noteq> [] \<longrightarrow>
      messages (last (gw_log (snd (persona_chat env w um raw path)))) ! 0 =
        role_content (PyStr (ustr ''system'')) (PyStr SYSTEM_PROMPT) \<and>
      messages (last (gw_log (snd (persona_chat env w um raw path)))) ! 1 =
        role_content (PyStr (ustr ''system''))
          (PyStr (CONTEXT_LABEL @ take 6000 (document_text env path))) \<and>
      filter is_context_message (messages (last (gw_log (snd (persona_chat env w um raw path)))))
        = [messages (last (gw_log (snd (persona_chat env w um raw path)))) ! 1]) \<and>
   (document_text env path = [] \<longrightarrow>
      filter is_context_message (messages (last (gw_log (snd (persona_chat env w um raw path)))))
        = [])"
  using not_context_system_prompt context_message_label [of "take 6000 (document_text env path)"]
    not_context_user [of "PyStr um"]
  by (simp add: persona_chat_request chat_request_def chat_messages_def
      filter_context_normalized)

theorem chat_prompt_context_message_witness:
  "document_text sample_env (Some (ustr ''resume.txt'')) = ustr ''Jane Doe\<newline>\<newline>Engineer'' \<and>
   filter is_context_message
     (messages (last (gw_log (snd (persona_chat sample_env sample_world (ustr ''Hello'') (Some 0)
        (Some (ustr ''resume.txt'')))))))
     = [role_content (PyStr (ustr ''system''))
          (PyStr (CONTEXT_LABEL @ ustr ''Jane Doe\<newline>\<newline>Engineer''))] \<and>
   document_text sample_env None = [] \<and>
   filter is_context_message
     (messages (last (gw_log (snd (persona_chat sample_env sample_world (ustr ''Hello'') (Some 0)
        None)))))
     = []"
proof -
  have d: "document_text sample_env (Some (ustr ''resume.txt'')) = ustr ''Jane Doe\<newline>\<newline>Engineer''"
    by (simp add: document_text_def file_to_text_def file_to_text_try_def
        sample_env_def posix_splitext_def after_last_def ascii_lower_def Let_def
        clean_text_def py_strip_def py_lstrip_def py_rstrip_def py_isspace_def)
  have e: "document_text sample_env None = []"
    by (simp add: document_text_def file_to_text_def)
  show ?thesis
    using chat_prompt_context_message [of sample_env "Some (ustr ''resume.txt'')" sample_world
        "ustr ''Hello''" "Some 0"]
      chat_prompt_context_message [of sample_env None sample_world "ustr ''Hello''" "Some 0"]
      d e
    by simp
qed

end
